theory Spec2Isabelle
  imports Complex_Main
begin

section \<open>Go strings and the helpers of the azure package\<close>

text \<open>
  A Go string is a sequence of bytes, and so is a HOL \<^typ>\<open>string\<close>. Non-ASCII text is
  written byte by byte in UTF-8.
\<close>

definition byte :: "char \<Rightarrow> nat" where
  "byte c = of_char c"

text \<open>
  \<open>strings.ToUpper\<close> of the Go standard library scans the bytes of \<open>s\<close>. When all of them
  are below \<open>utf8.RuneSelf = 0x80\<close> it returns \<open>s\<close> itself if no byte is a lower-case letter,
  and otherwise the bytes with \<open>'a' - 'A'\<close> subtracted from every byte in \<open>'a'..'z'\<close>. A string
  with a byte from \<open>0x80\<close> on goes to \<open>Map(unicode.ToUpper, s)\<close>, which depends on the Unicode
  tables; that mapping is the parameter \<open>unicodeUpper\<close>.
\<close>

definition isASCII :: "string \<Rightarrow> bool" where
  "isASCII s = list_all (\<lambda>c. byte c < 128) s"

definition isLower :: "char \<Rightarrow> bool" where
  "isLower c = (byte (CHR ''a'') \<le> byte c \<and> byte c \<le> byte (CHR ''z''))"

definition hasLower :: "string \<Rightarrow> bool" where
  "hasLower s = list_ex isLower s"

definition upperByte :: "char \<Rightarrow> char" where
  "upperByte c =
     (if isLower c then char_of (byte c - (byte (CHR ''a'') - byte (CHR ''A''))) else c)"

definition ToUpper :: "(string \<Rightarrow> string) \<Rightarrow> string \<Rightarrow> string" where
  "ToUpper unicodeUpper s =
     (if isASCII s then (if \<not> hasLower s then s else map upperByte s)
      else unicodeUpper s)"

text \<open>
  Modelled from the spec: the helper \<open>contains\<close> of the azure package is not among the source
  files. The spec describes its use as checking a configuration value "against the fixed set
  of supported values": it tells whether the string is one of the elements of the slice.
\<close>

definition contains :: "string list \<Rightarrow> string \<Rightarrow> bool" where
  "contains arr e = list_ex (\<lambda>a. a = e) arr"

text \<open>
  Modelled from the spec: \<open>strPtr\<close> and \<open>regexPtr\<close> are not among the source files either. An
  attribute filter has an "optional string (exact match)" and an "optional pattern"; the two
  helpers give a pointer to their argument, so the option is set.
\<close>

definition strPtr :: "string \<Rightarrow> string option" where
  "strPtr s = Some s"

definition regexPtr :: "string \<Rightarrow> string option" where
  "regexPtr s = Some s"

section \<open>The schema types used by the queue-storage model\<close>

text \<open>
  \<open>decimal.Decimal\<close> is an integer coefficient with a decimal exponent;
  \<open>decimal.NewFromInt n\<close> has the coefficient \<open>n\<close> and the exponent 0.
\<close>

datatype Decimal = Decimal (coefficient: int) (exponent: int)

definition NewFromInt :: "int \<Rightarrow> Decimal" where
  "NewFromInt n = Decimal n 0"

definition decimalValue :: "Decimal \<Rightarrow> rat" where
  "decimalValue d =
     (if 0 \<le> exponent d then of_int (coefficient d) * 10 ^ nat (exponent d)
      else of_int (coefficient d) / 10 ^ nat (- exponent d))"

text \<open>
  Only the fields that the source sets are kept. A Go pointer field is an option: \<open>nil\<close> is
  \<open>None\<close>.
\<close>

record AttributeFilter =
  Key :: string
  Value :: "string option"
  ValueRegex :: "string option"

record ProductFilter =
  VendorName :: "string option"
  Region :: "string option"
  Service :: "string option"
  ProductFamily :: "string option"
  AttributeFilters :: "AttributeFilter list"

record PriceFilter =
  PurchaseOption :: "string option"
  StartUsageAmount :: "string option"

record CostComponent =
  Name :: string
  Unit :: string
  UnitMultiplier :: Decimal
  MonthlyQuantity :: "Decimal option"
  ProductFilter :: "ProductFilter option"
  PriceFilter :: "PriceFilter option"

typedecl UsageItem

record Resource =
  Name :: string
  UsageSchema :: "UsageItem list"
  CostComponents :: "CostComponent list"

text \<open>The logrus calls of the code are returned as the list of entries they emit.\<close>

datatype Level = WarnLevel | DebugLevel

type_synonym LogEntry = "Level \<times> string"

section \<open>StorageQueue\<close>

record StorageQueue =
  Address :: string
  Region :: string
  AccountReplicationType :: string

definition UsageSchema :: "StorageQueue \<Rightarrow> UsageItem list" where
  "UsageSchema r = []"

definition isReplicationTypeSupported :: "(string \<Rightarrow> string) \<Rightarrow> StorageQueue \<Rightarrow> bool" where
  "isReplicationTypeSupported uu r =
     contains [''LRS'', ''ZRS'', ''GRS'', ''RA-GRS'', ''GZRS'', ''RA-GZRS'']
       (ToUpper uu (AccountReplicationType r))"

definition dataStorageCostComponent :: "(string \<Rightarrow> string) \<Rightarrow> StorageQueue \<Rightarrow> CostComponent" where
  "dataStorageCostComponent uu r =
     \<lparr> CostComponent.Name = ''Capacity'',
       Unit = ''GB'',
       UnitMultiplier = NewFromInt 1,
       MonthlyQuantity = None,
       ProductFilter = Some
         \<lparr> VendorName = strPtr ''azure'',
           ProductFilter.Region = strPtr (StorageQueue.Region r),
           Service = strPtr ''Storage'',
           ProductFamily = strPtr ''Storage'',
           AttributeFilters =
             [ \<lparr> Key = ''productName'', Value = strPtr ''Queues v2'', ValueRegex = None \<rparr>,
               \<lparr> Key = ''skuName'',
                 Value = strPtr (''Standard '' @ ToUpper uu (AccountReplicationType r)),
                 ValueRegex = None \<rparr>,
               \<lparr> Key = ''meterName'',
                 Value = strPtr (ToUpper uu (AccountReplicationType r) @ '' Data Stored''),
                 ValueRegex = None \<rparr> ] \<rparr>,
       PriceFilter = Some
         \<lparr> PurchaseOption = strPtr ''Consumption'', StartUsageAmount = strPtr ''0'' \<rparr> \<rparr>"

definition operationsCostComponents :: "(string \<Rightarrow> string) \<Rightarrow> StorageQueue \<Rightarrow> CostComponent list" where
  "operationsCostComponents uu r =
     (let costComponents = [];
          costComponents =
            (if \<not> contains [''GZRS'', ''RA-GZRS''] (ToUpper uu (AccountReplicationType r))
             then costComponents @
               [ \<lparr> CostComponent.Name = ''Class 1 operations'',
                   Unit = ''10k operations'',
                   UnitMultiplier = NewFromInt 1,
                   MonthlyQuantity = None,
                   ProductFilter = Some
                     \<lparr> VendorName = strPtr ''azure'',
                       ProductFilter.Region = strPtr (StorageQueue.Region r),
                       Service = strPtr ''Storage'',
                       ProductFamily = strPtr ''Storage'',
                       AttributeFilters =
                         [ \<lparr> Key = ''productName'', Value = strPtr ''Queues v2'', ValueRegex = None \<rparr>,
                           \<lparr> Key = ''skuName'',
                             Value = strPtr (''Standard '' @ ToUpper uu (AccountReplicationType r)),
                             ValueRegex = None \<rparr>,
                           \<lparr> Key = ''meterName'', Value = None,
                             ValueRegex = regexPtr ''Class 1 Operations$'' \<rparr> ] \<rparr>,
                   PriceFilter = Some
                     \<lparr> PurchaseOption = strPtr ''Consumption'', StartUsageAmount = strPtr ''0'' \<rparr> \<rparr> ]
             else costComponents);
          costComponents = costComponents @
            [ \<lparr> CostComponent.Name = ''Class 2 operations'',
                Unit = ''10k operations'',
                UnitMultiplier = NewFromInt 1,
                MonthlyQuantity = None,
                ProductFilter = Some
                  \<lparr> VendorName = strPtr ''azure'',
                    ProductFilter.Region = strPtr (StorageQueue.Region r),
                    Service = strPtr ''Storage'',
                    ProductFamily = strPtr ''Storage'',
                    AttributeFilters =
                      [ \<lparr> Key = ''productName'', Value = strPtr ''Queues v2'', ValueRegex = None \<rparr>,
                        \<lparr> Key = ''skuName'',
                          Value = strPtr (''Standard '' @ ToUpper uu (AccountReplicationType r)),
                          ValueRegex = None \<rparr>,
                        \<lparr> Key = ''meterName'', Value = None,
                          ValueRegex = regexPtr ''Class 2 Operations$'' \<rparr> ] \<rparr>,
                PriceFilter = Some
                  \<lparr> PurchaseOption = strPtr ''Consumption'', StartUsageAmount = strPtr ''0'' \<rparr> \<rparr> ]
      in costComponents)"

definition geoReplicationDataTransferCostComponents :: "(string \<Rightarrow> string) \<Rightarrow> StorageQueue \<Rightarrow> CostComponent list" where
  "geoReplicationDataTransferCostComponents uu r =
     (if contains [''LRS'', ''ZRS''] (ToUpper uu (AccountReplicationType r)) then []
      else
        [ \<lparr> CostComponent.Name = ''Geo-replication data transfer'',
            Unit = ''GB'',
            UnitMultiplier = NewFromInt 1,
            MonthlyQuantity = None,
            ProductFilter = Some
              \<lparr> VendorName = strPtr ''azure'',
                ProductFilter.Region = strPtr (StorageQueue.Region r),
                Service = strPtr ''Storage'',
                ProductFamily = strPtr ''Storage'',
                AttributeFilters =
                  [ \<lparr> Key = ''productName'', Value = strPtr ''Storage - Bandwidth'',
                      ValueRegex = None \<rparr>,
                    \<lparr> Key = ''skuName'', Value = strPtr ''Geo-Replication v2'',
                      ValueRegex = None \<rparr>,
                    \<lparr> Key = ''meterName'', Value = strPtr ''Geo-Replication v2 Data Transfer'',
                      ValueRegex = None \<rparr> ] \<rparr>,
            PriceFilter = Some
              \<lparr> PurchaseOption = strPtr ''Consumption'', StartUsageAmount = strPtr ''0'' \<rparr> \<rparr> ])"

definition skipWarning :: "StorageQueue \<Rightarrow> LogEntry" where
  "skipWarning r =
     (WarnLevel, ''Skipping resource '' @ Address r @ ''. Storage queues don't support ''
        @ AccountReplicationType r @ '' redundancy'')"

definition BuildResource :: "(string \<Rightarrow> string) \<Rightarrow> StorageQueue \<Rightarrow> Resource option \<times> LogEntry list" where
  "BuildResource uu r =
     (if \<not> isReplicationTypeSupported uu r then (None, [skipWarning r])
      else
        (let costComponents = [dataStorageCostComponent uu r];
             costComponents = costComponents @ operationsCostComponents uu r;
             costComponents = costComponents @ geoReplicationDataTransferCostComponents uu r
         in (Some \<lparr> Resource.Name = Address r,
                     UsageSchema = UsageSchema r,
                     CostComponents = costComponents \<rparr>, [])))"

section \<open>The module golang.org/x/mod/semver\<close>

text \<open>
  \<open>checkVersion\<close> compares versions with \<open>semver.Compare\<close> of the external module
  \<open>golang.org/x/mod/semver\<close>. Its functions are embedded here one by one, with their names:
  byte indices are list positions and \<open>v[a:b]\<close> is \<open>slice v a b\<close>.
\<close>

definition slice :: "string \<Rightarrow> nat \<Rightarrow> nat \<Rightarrow> string" where
  "slice v a b = take (b - a) (drop a v)"

definition isDigit :: "char \<Rightarrow> bool" where
  "isDigit c = (byte (CHR ''0'') \<le> byte c \<and> byte c \<le> byte (CHR ''9''))"

definition isIdentChar :: "char \<Rightarrow> bool" where
  "isIdentChar c =
     (byte (CHR ''A'') \<le> byte c \<and> byte c \<le> byte (CHR ''Z'')
      \<or> byte (CHR ''a'') \<le> byte c \<and> byte c \<le> byte (CHR ''z'')
      \<or> byte (CHR ''0'') \<le> byte c \<and> byte c \<le> byte (CHR ''9'')
      \<or> c = CHR ''-'')"

definition isBadNum :: "string \<Rightarrow> bool" where
  "isBadNum v =
     (let i = length (takeWhile isDigit v)
      in i = length v \<and> 1 < i \<and> hd v = CHR ''0'')"

definition isNum :: "string \<Rightarrow> bool" where
  "isNum v = (let i = length (takeWhile isDigit v) in i = length v)"

text \<open>\<open>parseInt\<close> returns \<open>(t, rest, ok)\<close>; here \<open>None\<close> is \<open>ok = false\<close>.\<close>

definition parseInt :: "string \<Rightarrow> (string \<times> string) option" where
  "parseInt v =
     (if v = [] then None
      else if \<not> isDigit (hd v) then None
      else
        (let i = Suc (length (takeWhile isDigit (tl v)))
         in if hd v = CHR ''0'' \<and> i \<noteq> 1 then None
            else Some (take i v, drop i v)))"

function prereleaseScan :: "string \<Rightarrow> nat \<Rightarrow> nat \<Rightarrow> nat option" where
  "prereleaseScan v i start =
     (if i < length v \<and> v ! i \<noteq> CHR ''+'' then
        (if \<not> isIdentChar (v ! i) \<and> v ! i \<noteq> CHR ''.'' then None
         else if v ! i = CHR ''.'' then
           (if start = i \<or> isBadNum (slice v start i) then None
            else prereleaseScan v (i + 1) (i + 1))
         else prereleaseScan v (i + 1) start)
      else (if start = i \<or> isBadNum (slice v start i) then None else Some i))"
  by pat_completeness auto
termination
  by (relation "measure (\<lambda>(v, i, start). length v - i)") auto

definition parsePrerelease :: "string \<Rightarrow> (string \<times> string) option" where
  "parsePrerelease v =
     (if v = [] \<or> hd v \<noteq> CHR ''-'' then None
      else (case prereleaseScan v 1 1 of
              None \<Rightarrow> None
            | Some i \<Rightarrow> Some (take i v, drop i v)))"

function buildScan :: "string \<Rightarrow> nat \<Rightarrow> nat \<Rightarrow> nat option" where
  "buildScan v i start =
     (if i < length v then
        (if \<not> isIdentChar (v ! i) \<and> v ! i \<noteq> CHR ''.'' then None
         else if v ! i = CHR ''.'' then
           (if start = i then None else buildScan v (i + 1) (i + 1))
         else buildScan v (i + 1) start)
      else (if start = i then None else Some i))"
  by pat_completeness auto
termination
  by (relation "measure (\<lambda>(v, i, start). length v - i)") auto

definition parseBuild :: "string \<Rightarrow> (string \<times> string) option" where
  "parseBuild v =
     (if v = [] \<or> hd v \<noteq> CHR ''+'' then None
      else (case buildScan v 1 1 of
              None \<Rightarrow> None
            | Some i \<Rightarrow> Some (take i v, drop i v)))"

record parsed =
  major :: string
  minor :: string
  patch :: string
  short :: string
  prerelease :: string
  build :: string

definition parse :: "string \<Rightarrow> parsed option" where
  "parse v =
     (if v = [] \<or> hd v \<noteq> CHR ''v'' then None
      else
        (case parseInt (tl v) of
           None \<Rightarrow> None
         | Some (mj, v) \<Rightarrow>
            (if v = [] then
               Some \<lparr> major = mj, minor = ''0'', patch = ''0'', short = ''.0.0'',
                      prerelease = [], build = [] \<rparr>
             else if hd v \<noteq> CHR ''.'' then None
             else
               (case parseInt (tl v) of
                  None \<Rightarrow> None
                | Some (mn, v) \<Rightarrow>
                   (if v = [] then
                      Some \<lparr> major = mj, minor = mn, patch = ''0'', short = ''.0'',
                             prerelease = [], build = [] \<rparr>
                    else if hd v \<noteq> CHR ''.'' then None
                    else
                      (case parseInt (tl v) of
                         None \<Rightarrow> None
                       | Some (pt, v) \<Rightarrow>
                          (case (if v \<noteq> [] \<and> hd v = CHR ''-'' then parsePrerelease v
                                 else Some ([], v)) of
                             None \<Rightarrow> None
                           | Some (pr, v) \<Rightarrow>
                              (case (if v \<noteq> [] \<and> hd v = CHR ''+'' then parseBuild v
                                     else Some ([], v)) of
                                 None \<Rightarrow> None
                               | Some (bd, v) \<Rightarrow>
                                  (if v \<noteq> [] then None
                                   else Some \<lparr> major = mj, minor = mn, patch = pt,
                                               short = [], prerelease = pr,
                                               build = bd \<rparr>)))))))))"

text \<open>Go's \<open><\<close> on strings: lexicographic in the bytes, a proper prefix first.\<close>

fun stringLess :: "string \<Rightarrow> string \<Rightarrow> bool" where
  "stringLess [] [] = False"
| "stringLess [] (y # ys) = True"
| "stringLess (x # xs) [] = False"
| "stringLess (x # xs) (y # ys) =
     (if byte x < byte y then True
      else if byte y < byte x then False
      else stringLess xs ys)"

definition compareInt :: "string \<Rightarrow> string \<Rightarrow> int" where
  "compareInt x y =
     (if x = y then 0
      else if length x < length y then -1
      else if length x > length y then 1
      else if stringLess x y then -1
      else 1)"

definition nextIdent :: "string \<Rightarrow> string \<times> string" where
  "nextIdent x =
     (let i = length (takeWhile (\<lambda>c. c \<noteq> CHR ''.'') x) in (take i x, drop i x))"

function prereleaseLoop :: "string \<Rightarrow> string \<Rightarrow> int" where
  "prereleaseLoop x y =
     (if x \<noteq> [] \<and> y \<noteq> [] then
        (let dx = fst (nextIdent (tl x));
             dy = fst (nextIdent (tl y))
         in if dx \<noteq> dy then
              (let ix = isNum dx; iy = isNum dy
               in if ix \<noteq> iy then (if ix then -1 else 1)
                  else if ix \<and> length dx < length dy then -1
                  else if ix \<and> length dx > length dy then 1
                  else if stringLess dx dy then -1
                  else 1)
            else prereleaseLoop (snd (nextIdent (tl x))) (snd (nextIdent (tl y))))
      else (if x = [] then -1 else 1))"
  by pat_completeness auto
termination
proof (relation "measure (\<lambda>(x, y). length x)")
  show "wf (measure (\<lambda>(x, y). length x))"
    by simp
next
  fix x y :: string and dx dy :: string
  assume "x \<noteq> [] \<and> y \<noteq> []"
  then have "length (tl x) < length x"
    by (cases x) simp_all
  moreover have "length (snd (nextIdent (tl x))) \<le> length (tl x)"
    by (simp add: nextIdent_def Let_def)
  ultimately show "((snd (nextIdent (tl x)), snd (nextIdent (tl y))), (x, y))
      \<in> measure (\<lambda>(x, y). length x)"
    by simp
qed

definition comparePrerelease :: "string \<Rightarrow> string \<Rightarrow> int" where
  "comparePrerelease x y =
     (if x = y then 0
      else if x = [] then 1
      else if y = [] then -1
      else prereleaseLoop x y)"

definition Compare :: "string \<Rightarrow> string \<Rightarrow> int" where
  "Compare v w =
     (case (parse v, parse w) of
        (None, None) \<Rightarrow> 0
      | (None, Some pw) \<Rightarrow> -1
      | (Some pv, None) \<Rightarrow> 1
      | (Some pv, Some pw) \<Rightarrow>
          (if compareInt (major pv) (major pw) \<noteq> 0 then compareInt (major pv) (major pw)
           else if compareInt (minor pv) (minor pw) \<noteq> 0 then compareInt (minor pv) (minor pw)
           else if compareInt (patch pv) (patch pw) \<noteq> 0 then compareInt (patch pv) (patch pw)
           else comparePrerelease (prerelease pv) (prerelease pw)))"

section \<open>The usage file\<close>

text \<open>
  An error value is a message (\<open>fmt.Errorf\<close>, and the errors of the file system and of the
  YAML parser) or an error wrapped by \<open>errors.Wrap\<close> with a message in front of it. A Go
  \<open>error\<close> result is an option, \<open>nil\<close> being \<open>None\<close>.
\<close>

datatype error = ErrorString string | WithMessage error string

fun Error :: "error \<Rightarrow> string" where
  "Error (ErrorString s) = s"
| "Error (WithMessage cause msg) = msg @ '': '' @ Error cause"

definition Wrap :: "error option \<Rightarrow> string \<Rightarrow> error option" where
  "Wrap err message =
     (case err of None \<Rightarrow> None | Some e \<Rightarrow> Some (WithMessage e message))"

definition minUsageFileVersion :: string where
  "minUsageFileVersion = ''0.1''"

definition maxUsageFileVersion :: string where
  "maxUsageFileVersion = ''0.1''"

record 'i UsageFile =
  Version :: string
  ResourceUsage :: "string \<rightharpoonup> 'i"

definition zeroUsageFile :: "'i UsageFile" where
  "zeroUsageFile = \<lparr> Version = [], ResourceUsage = Map.empty \<rparr>"

definition HasPrefix :: "string \<Rightarrow> string \<Rightarrow> bool" where
  "HasPrefix s prefix = (length prefix \<le> length s \<and> take (length prefix) s = prefix)"

definition checkVersion :: "string \<Rightarrow> bool" where
  "checkVersion v0 =
     (let v = (if \<not> HasPrefix v0 ''v'' then ''v'' @ v0 else v0)
      in 0 \<le> Compare v (''v'' @ minUsageFileVersion)
         \<and> Compare v (''v'' @ maxUsageFileVersion) \<le> 0)"

text \<open>
  The message of the version error; \<open>0xE2 0x89 0xA4\<close> is the UTF-8 encoding of the
  less-than-or-equal sign of the format string.
\<close>

definition versionError :: error where
  "versionError =
     ErrorString (''Invalid usage file version. Supported versions are '' @ minUsageFileVersion
       @ '' '' @ [CHR 0xE2, CHR 0x89, CHR 0xA4] @ '' x '' @ [CHR 0xE2, CHR 0x89, CHR 0xA4]
       @ '' '' @ maxUsageFileVersion)"

text \<open>
  \<open>yaml.Unmarshal\<close> (external) fills the struct it is given and returns an error or \<open>nil\<close>;
  \<open>schema.NewUsageMap\<close> is not among the source files. Both are parameters.
\<close>

definition parseYAML ::
  "(string \<Rightarrow> 'i UsageFile \<Rightarrow> 'i UsageFile \<times> error option) \<Rightarrow>
   ((string \<rightharpoonup> 'i) \<Rightarrow> (string \<rightharpoonup> 'u)) \<Rightarrow> string \<Rightarrow> (string \<rightharpoonup> 'u) \<times> error option" where
  "parseYAML unmarshal newUsageMap y =
     (let (usageFile, err) = unmarshal y zeroUsageFile
      in if err \<noteq> None then (Map.empty, Wrap err ''Error parsing usage YAML'')
         else if \<not> checkVersion (Version usageFile) then (Map.empty, Some versionError)
         else (newUsageMap (ResourceUsage usageFile), None))"

text \<open>
  \<open>ioutil.ReadFile\<close> is a parameter too: the bytes and the error for each path. What
  \<open>LoadFromFile\<close> does besides returning (the debug entry, the read of a path) is returned
  as a trace.
\<close>

datatype Effect = Logged LogEntry | ReadFile string

definition LoadFromFile ::
  "(string \<Rightarrow> string \<times> error option) \<Rightarrow>
   (string \<Rightarrow> 'i UsageFile \<Rightarrow> 'i UsageFile \<times> error option) \<Rightarrow>
   ((string \<rightharpoonup> 'i) \<Rightarrow> (string \<rightharpoonup> 'u)) \<Rightarrow> string \<Rightarrow>
   ((string \<rightharpoonup> 'u) \<times> error option) \<times> Effect list" where
  "LoadFromFile readFile unmarshal newUsageMap usageFile =
     (let usageData = Map.empty
      in if usageFile = [] then ((usageData, None), [])
         else
           (let trace = [Logged (DebugLevel, ''Loading usage data from usage file''),
                         ReadFile usageFile];
                (out, err) = readFile usageFile
            in if err \<noteq> None
               then ((usageData, Wrap err ''Error reading usage file''), trace)
               else
                 (let (usageData, err) = parseYAML unmarshal newUsageMap out
                  in if err \<noteq> None
                     then ((usageData, Wrap err ''Error parsing usage file''), trace)
                     else ((usageData, None), trace))))"

section \<open>Facts about the helpers\<close>

lemma contains_set: "contains arr e \<longleftrightarrow> e \<in> set arr"
  by (auto simp: contains_def list_ex_iff)

lemma ToUpper_ascii: "isASCII s \<Longrightarrow> ToUpper uu s = map upperByte s"
proof -
  have "\<not> hasLower s \<Longrightarrow> map upperByte s = s"
    by (induction s) (simp_all add: hasLower_def upperByte_def)
  then show "isASCII s \<Longrightarrow> ToUpper uu s = map upperByte s"
    by (simp add: ToUpper_def)
qed

lemma ToUpper_ra_grs: "ToUpper uu ''ra-grs'' = ''RA-GRS''"
  by code_simp

lemma ToUpper_LRS: "ToUpper uu ''LRS'' = ''LRS''"
  by code_simp

lemma ToUpper_RA_GZRS: "ToUpper uu ''RA-GZRS'' = ''RA-GZRS''"
  by code_simp

lemma ToUpper_XYZ: "ToUpper uu ''XYZ'' = ''XYZ''"
  by code_simp

section \<open>Properties of StorageQueue.BuildResource\<close>

text \<open>
  C1. For every AccountReplicationType whose upper-cased form is one of LRS, ZRS, GRS, RA-GRS,
  GZRS, RA-GZRS, \<open>BuildResource\<close> returns a resource whose component list is not empty. For
  every other value it returns no resource and emits exactly one entry, a warning.
\<close>

theorem C1_supported_builds_unsupported_skips:
  "(ToUpper uu (AccountReplicationType r)
      \<in> {''LRS'', ''ZRS'', ''GRS'', ''RA-GRS'', ''GZRS'', ''RA-GZRS''}
    \<longrightarrow> (\<exists>res. fst (BuildResource uu r) = Some res \<and> CostComponents res \<noteq> []))
   \<and> (ToUpper uu (AccountReplicationType r)
      \<notin> {''LRS'', ''ZRS'', ''GRS'', ''RA-GRS'', ''GZRS'', ''RA-GZRS''}
    \<longrightarrow> (\<exists>msg. BuildResource uu r = (None, [(WarnLevel, msg)])))"
  by (simp add: BuildResource_def isReplicationTypeSupported_def contains_set Let_def
      skipWarning_def)

theorem C1_witness:
  "(\<exists>res. fst (BuildResource id
       \<lparr>Address = ''q'', Region = ''westeurope'', AccountReplicationType = ''ra-grs''\<rparr>) = Some res
     \<and> CostComponents res \<noteq> [])
   \<and> (\<exists>msg. BuildResource id
       \<lparr>Address = ''q'', Region = ''westeurope'', AccountReplicationType = ''XYZ''\<rparr>
       = (None, [(WarnLevel, msg)]))"
  using C1_supported_builds_unsupported_skips
      [of id "\<lparr>Address = ''q'', Region = ''westeurope'', AccountReplicationType = ''ra-grs''\<rparr>"]
    C1_supported_builds_unsupported_skips
      [of id "\<lparr>Address = ''q'', Region = ''westeurope'', AccountReplicationType = ''XYZ''\<rparr>"]
  by (simp add: ToUpper_ra_grs ToUpper_XYZ)

section \<open>More facts about the queue-storage functions\<close>

lemma ToUpper_gzrs: "ToUpper uu ''gzrs'' = ''GZRS''"
  by code_simp

lemma ToUpper_Zrs: "ToUpper uu ''Zrs'' = ''ZRS''"
  by code_simp

lemma ToUpper_lrs: "ToUpper uu ''lrs'' = ''LRS''"
  by code_simp

lemma BuildResource_components:
  "isReplicationTypeSupported uu r \<Longrightarrow>
   BuildResource uu r =
     (Some \<lparr> Resource.Name = Address r, UsageSchema = UsageSchema r,
              CostComponents = dataStorageCostComponent uu r # operationsCostComponents uu r
                @ geoReplicationDataTransferCostComponents uu r \<rparr>, [])"
  by (simp add: BuildResource_def Let_def)

lemma supported_set:
  "isReplicationTypeSupported uu r \<longleftrightarrow>
   ToUpper uu (AccountReplicationType r)
     \<in> {''LRS'', ''ZRS'', ''GRS'', ''RA-GRS'', ''GZRS'', ''RA-GZRS''}"
  by (simp add: isReplicationTypeSupported_def contains_set)

lemma operations_names:
  "map CostComponent.Name (operationsCostComponents uu r) =
     (if ToUpper uu (AccountReplicationType r) \<in> {''GZRS'', ''RA-GZRS''} then []
      else [''Class 1 operations'']) @ [''Class 2 operations'']"
  by (simp add: operationsCostComponents_def Let_def contains_set)

lemma geo_names:
  "map CostComponent.Name (geoReplicationDataTransferCostComponents uu r) =
     (if ToUpper uu (AccountReplicationType r) \<in> {''LRS'', ''ZRS''} then []
      else [''Geo-replication data transfer''])"
  by (simp add: geoReplicationDataTransferCostComponents_def contains_set)

lemma data_name: "CostComponent.Name (dataStorageCostComponent uu r) = ''Capacity''"
  by (simp add: dataStorageCostComponent_def)

lemma ToUpper_Ra_Gzrs: "ToUpper uu ''Ra-Gzrs'' = ''RA-GZRS''"
  by code_simp

section \<open>Order, presence and filters of the components\<close>

text \<open>
  C2. For every supported AccountReplicationType, \<open>BuildResource\<close> returns the base
  component first, then the operation components, then the transfer components: Capacity,
  Class 1 operations unless the upper-cased configuration is GZRS or RA-GZRS, Class 2
  operations, Geo-replication data transfer unless it is LRS or ZRS. In particular LRS gives
  Capacity, Class 1 operations, Class 2 operations; RA-GZRS gives Capacity, Class 2 operations,
  Geo-replication data transfer; XYZ gives no resource and one warning.
\<close>

theorem C2_component_order:
  "(ToUpper uu (AccountReplicationType r)
      \<in> {''LRS'', ''ZRS'', ''GRS'', ''RA-GRS'', ''GZRS'', ''RA-GZRS''}
    \<longrightarrow> (\<exists>res. fst (BuildResource uu r) = Some res
          \<and> CostComponents res =
              [dataStorageCostComponent uu r] @ operationsCostComponents uu r
                @ geoReplicationDataTransferCostComponents uu r
          \<and> map CostComponent.Name (CostComponents res) =
              [''Capacity'']
              @ (if ToUpper uu (AccountReplicationType r) \<in> {''GZRS'', ''RA-GZRS''} then []
                 else [''Class 1 operations''])
              @ [''Class 2 operations'']
              @ (if ToUpper uu (AccountReplicationType r) \<in> {''LRS'', ''ZRS''} then []
                 else [''Geo-replication data transfer''])))
   \<and> (AccountReplicationType r = ''LRS''
    \<longrightarrow> (\<exists>res. fst (BuildResource uu r) = Some res
          \<and> map CostComponent.Name (CostComponents res) =
              [''Capacity'', ''Class 1 operations'', ''Class 2 operations'']))
   \<and> (AccountReplicationType r = ''RA-GZRS''
    \<longrightarrow> (\<exists>res. fst (BuildResource uu r) = Some res
          \<and> map CostComponent.Name (CostComponents res) =
              [''Capacity'', ''Class 2 operations'', ''Geo-replication data transfer'']))
   \<and> (AccountReplicationType r = ''XYZ''
    \<longrightarrow> (\<exists>msg. BuildResource uu r = (None, [(WarnLevel, msg)])))"
proof (intro conjI impI)
  assume s: "ToUpper uu (AccountReplicationType r)
      \<in> {''LRS'', ''ZRS'', ''GRS'', ''RA-GRS'', ''GZRS'', ''RA-GZRS''}"
  then have "isReplicationTypeSupported uu r"
    by (simp only: supported_set)
  then show "\<exists>res. fst (BuildResource uu r) = Some res
          \<and> CostComponents res =
              [dataStorageCostComponent uu r] @ operationsCostComponents uu r
                @ geoReplicationDataTransferCostComponents uu r
          \<and> map CostComponent.Name (CostComponents res) =
              [''Capacity'']
              @ (if ToUpper uu (AccountReplicationType r) \<in> {''GZRS'', ''RA-GZRS''} then []
                 else [''Class 1 operations''])
              @ [''Class 2 operations'']
              @ (if ToUpper uu (AccountReplicationType r) \<in> {''LRS'', ''ZRS''} then []
                 else [''Geo-replication data transfer''])"
    by (simp add: BuildResource_components operations_names geo_names data_name)
next
  assume a: "AccountReplicationType r = ''LRS''"
  then have "isReplicationTypeSupported uu r"
    by (simp add: supported_set ToUpper_LRS)
  with a show "\<exists>res. fst (BuildResource uu r) = Some res
          \<and> map CostComponent.Name (CostComponents res) =
              [''Capacity'', ''Class 1 operations'', ''Class 2 operations'']"
    by (simp add: BuildResource_components operations_names geo_names data_name ToUpper_LRS)
next
  assume a: "AccountReplicationType r = ''RA-GZRS''"
  then have "isReplicationTypeSupported uu r"
    by (simp add: supported_set ToUpper_RA_GZRS)
  with a show "\<exists>res. fst (BuildResource uu r) = Some res
          \<and> map CostComponent.Name (CostComponents res) =
              [''Capacity'', ''Class 2 operations'', ''Geo-replication data transfer'']"
    by (simp add: BuildResource_components operations_names geo_names data_name
        ToUpper_RA_GZRS)
next
  assume a: "AccountReplicationType r = ''XYZ''"
  then have "\<not> isReplicationTypeSupported uu r"
    by (simp add: supported_set ToUpper_XYZ)
  then show "\<exists>msg. BuildResource uu r = (None, [(WarnLevel, msg)])"
    by (simp add: BuildResource_def skipWarning_def)
qed

theorem C2_witness:
  "(\<exists>res. fst (BuildResource id
        \<lparr>Address = ''q'', Region = ''westeurope'', AccountReplicationType = ''LRS''\<rparr>) = Some res
      \<and> map CostComponent.Name (CostComponents res) =
          [''Capacity'', ''Class 1 operations'', ''Class 2 operations''])
   \<and> (\<exists>res. fst (BuildResource id
        \<lparr>Address = ''q'', Region = ''westeurope'', AccountReplicationType = ''RA-GZRS''\<rparr>) = Some res
      \<and> map CostComponent.Name (CostComponents res) =
          [''Capacity'', ''Class 2 operations'', ''Geo-replication data transfer''])
   \<and> (\<exists>res. fst (BuildResource id
        \<lparr>Address = ''q'', Region = ''westeurope'', AccountReplicationType = ''ra-grs''\<rparr>) = Some res
      \<and> map CostComponent.Name (CostComponents res) =
          [''Capacity'', ''Class 1 operations'', ''Class 2 operations'',
           ''Geo-replication data transfer''])
   \<and> (\<exists>msg. BuildResource id
        \<lparr>Address = ''q'', Region = ''westeurope'', AccountReplicationType = ''XYZ''\<rparr>
        = (None, [(WarnLevel, msg)]))"
proof (intro conjI)
  show "\<exists>res. fst (BuildResource id
        \<lparr>Address = ''q'', Region = ''westeurope'', AccountReplicationType = ''LRS''\<rparr>) = Some res
      \<and> map CostComponent.Name (CostComponents res) =
          [''Capacity'', ''Class 1 operations'', ''Class 2 operations'']"
    using C2_component_order
      [of id "\<lparr>Address = ''q'', Region = ''westeurope'', AccountReplicationType = ''LRS''\<rparr>"]
    by simp
  show "\<exists>res. fst (BuildResource id
        \<lparr>Address = ''q'', Region = ''westeurope'', AccountReplicationType = ''RA-GZRS''\<rparr>) = Some res
      \<and> map CostComponent.Name (CostComponents res) =
          [''Capacity'', ''Class 2 operations'', ''Geo-replication data transfer'']"
    using C2_component_order
      [of id "\<lparr>Address = ''q'', Region = ''westeurope'', AccountReplicationType = ''RA-GZRS''\<rparr>"]
    by simp
  show "\<exists>res. fst (BuildResource id
        \<lparr>Address = ''q'', Region = ''westeurope'', AccountReplicationType = ''ra-grs''\<rparr>) = Some res
      \<and> map CostComponent.Name (CostComponents res) =
          [''Capacity'', ''Class 1 operations'', ''Class 2 operations'',
           ''Geo-replication data transfer'']"
    using C2_component_order
      [of id "\<lparr>Address = ''q'', Region = ''westeurope'', AccountReplicationType = ''ra-grs''\<rparr>"]
    by (simp add: ToUpper_ra_grs) (elim exE conjE, intro exI conjI, assumption+)
  show "\<exists>msg. BuildResource id
        \<lparr>Address = ''q'', Region = ''westeurope'', AccountReplicationType = ''XYZ''\<rparr>
        = (None, [(WarnLevel, msg)])"
    using C2_component_order
      [of id "\<lparr>Address = ''q'', Region = ''westeurope'', AccountReplicationType = ''XYZ''\<rparr>"]
    by simp
qed

text \<open>
  C3. For every supported AccountReplicationType, \<open>operationsCostComponents\<close> contains a
  component named Class 1 operations exactly when the upper-cased configuration is neither
  GZRS nor RA-GZRS, and it always contains a component named Class 2 operations.
\<close>

theorem C3_operation_classes:
  "ToUpper uu (AccountReplicationType r)
      \<in> {''LRS'', ''ZRS'', ''GRS'', ''RA-GRS'', ''GZRS'', ''RA-GZRS''}
   \<Longrightarrow> ((\<exists>c \<in> set (operationsCostComponents uu r). CostComponent.Name c = ''Class 1 operations'')
          \<longleftrightarrow> ToUpper uu (AccountReplicationType r) \<notin> {''GZRS'', ''RA-GZRS''})
       \<and> (\<exists>c \<in> set (operationsCostComponents uu r). CostComponent.Name c = ''Class 2 operations'')"
proof -
  have "(\<exists>c \<in> set (operationsCostComponents uu r). CostComponent.Name c = n)
        \<longleftrightarrow> n \<in> set (map CostComponent.Name (operationsCostComponents uu r))" for n
    by (simp add: image_iff) metis
  then show ?thesis
    by (simp add: operations_names)
qed

theorem C3_witness:
  "\<not> (\<exists>c \<in> set (operationsCostComponents id
        \<lparr>Address = ''q'', Region = ''westeurope'', AccountReplicationType = ''gzrs''\<rparr>).
        CostComponent.Name c = ''Class 1 operations'')
   \<and> (\<exists>c \<in> set (operationsCostComponents id
        \<lparr>Address = ''q'', Region = ''westeurope'', AccountReplicationType = ''gzrs''\<rparr>).
        CostComponent.Name c = ''Class 2 operations'')
   \<and> (\<exists>c \<in> set (operationsCostComponents id
        \<lparr>Address = ''q'', Region = ''westeurope'', AccountReplicationType = ''Zrs''\<rparr>).
        CostComponent.Name c = ''Class 1 operations'')"
  using C3_operation_classes
      [of id "\<lparr>Address = ''q'', Region = ''westeurope'', AccountReplicationType = ''gzrs''\<rparr>"]
    C3_operation_classes
      [of id "\<lparr>Address = ''q'', Region = ''westeurope'', AccountReplicationType = ''Zrs''\<rparr>"]
  by (simp add: ToUpper_gzrs ToUpper_Zrs)

text \<open>
  C4. When the upper-cased configuration is LRS or ZRS,
  \<open>geoReplicationDataTransferCostComponents\<close> returns the empty list; for GRS, RA-GRS, GZRS
  and RA-GZRS it returns exactly one component, named Geo-replication data transfer.
\<close>

theorem C4_transfer_group:
  "(ToUpper uu (AccountReplicationType r) \<in> {''LRS'', ''ZRS''}
    \<longrightarrow> geoReplicationDataTransferCostComponents uu r = [])
   \<and> (ToUpper uu (AccountReplicationType r) \<in> {''GRS'', ''RA-GRS'', ''GZRS'', ''RA-GZRS''}
    \<longrightarrow> (\<exists>c. geoReplicationDataTransferCostComponents uu r = [c]
          \<and> CostComponent.Name c = ''Geo-replication data transfer''))"
  by (auto simp add: geoReplicationDataTransferCostComponents_def contains_set)

theorem C4_witness:
  "geoReplicationDataTransferCostComponents id
      \<lparr>Address = ''q'', Region = ''westeurope'', AccountReplicationType = ''lrs''\<rparr> = []
   \<and> (\<exists>c. geoReplicationDataTransferCostComponents id
        \<lparr>Address = ''q'', Region = ''westeurope'', AccountReplicationType = ''ra-grs''\<rparr> = [c]
      \<and> CostComponent.Name c = ''Geo-replication data transfer'')"
  using C4_transfer_group
      [of id "\<lparr>Address = ''q'', Region = ''westeurope'', AccountReplicationType = ''lrs''\<rparr>"]
    C4_transfer_group
      [of id "\<lparr>Address = ''q'', Region = ''westeurope'', AccountReplicationType = ''ra-grs''\<rparr>"]
  by (simp add: ToUpper_lrs ToUpper_ra_grs)

text \<open>
  C5. For every supported AccountReplicationType, in whatever casing it is given, the
  attribute filters that embed the configuration carry it upper-cased: the skuName filter of
  the Capacity and the operation components is "Standard " followed by the upper-cased
  configuration, and the meterName filter of the Capacity component is the upper-cased
  configuration followed by " Data Stored". The filters of the transfer component are
  constants.
\<close>

theorem C5_filters_upper_cased:
  "ToUpper uu (AccountReplicationType r)
      \<in> {''LRS'', ''ZRS'', ''GRS'', ''RA-GRS'', ''GZRS'', ''RA-GZRS''}
   \<Longrightarrow> (\<exists>pf. ProductFilter (dataStorageCostComponent uu r) = Some pf
          \<and> AttributeFilters pf =
             [ \<lparr> Key = ''productName'', Value = Some ''Queues v2'', ValueRegex = None \<rparr>,
               \<lparr> Key = ''skuName'',
                 Value = Some (''Standard '' @ ToUpper uu (AccountReplicationType r)),
                 ValueRegex = None \<rparr>,
               \<lparr> Key = ''meterName'',
                 Value = Some (ToUpper uu (AccountReplicationType r) @ '' Data Stored''),
                 ValueRegex = None \<rparr> ])
       \<and> (\<forall>c \<in> set (operationsCostComponents uu r).
            \<exists>pf rx. ProductFilter c = Some pf
              \<and> AttributeFilters pf =
                 [ \<lparr> Key = ''productName'', Value = Some ''Queues v2'', ValueRegex = None \<rparr>,
                   \<lparr> Key = ''skuName'',
                     Value = Some (''Standard '' @ ToUpper uu (AccountReplicationType r)),
                     ValueRegex = None \<rparr>,
                   \<lparr> Key = ''meterName'', Value = None, ValueRegex = Some rx \<rparr> ])
       \<and> (\<forall>c \<in> set (geoReplicationDataTransferCostComponents uu r).
            \<exists>pf. ProductFilter c = Some pf
              \<and> AttributeFilters pf =
                 [ \<lparr> Key = ''productName'', Value = Some ''Storage - Bandwidth'',
                     ValueRegex = None \<rparr>,
                   \<lparr> Key = ''skuName'', Value = Some ''Geo-Replication v2'', ValueRegex = None \<rparr>,
                   \<lparr> Key = ''meterName'', Value = Some ''Geo-Replication v2 Data Transfer'',
                     ValueRegex = None \<rparr> ])"
  by (simp add: dataStorageCostComponent_def operationsCostComponents_def
      geoReplicationDataTransferCostComponents_def strPtr_def regexPtr_def Let_def)

theorem C5_witness:
  "map_option (map Value \<circ> AttributeFilters) (ProductFilter (dataStorageCostComponent id
      \<lparr>Address = ''q'', Region = ''westeurope'', AccountReplicationType = ''Ra-Gzrs''\<rparr>))
     = Some [Some ''Queues v2'', Some ''Standard RA-GZRS'', Some ''RA-GZRS Data Stored'']
   \<and> map (map_option (map Value \<circ> AttributeFilters) \<circ> ProductFilter)
       (operationsCostComponents id
         \<lparr>Address = ''q'', Region = ''westeurope'', AccountReplicationType = ''Ra-Gzrs''\<rparr>)
     = [Some [Some ''Queues v2'', Some ''Standard RA-GZRS'', None]]"
proof -
  have one: "\<exists>c. operationsCostComponents id
      \<lparr>Address = ''q'', Region = ''westeurope'', AccountReplicationType = ''Ra-Gzrs''\<rparr> = [c]"
    by (simp add: operationsCostComponents_def contains_set ToUpper_Ra_Gzrs)
  show ?thesis
    using C5_filters_upper_cased
      [of id "\<lparr>Address = ''q'', Region = ''westeurope'', AccountReplicationType = ''Ra-Gzrs''\<rparr>"]
      one
    by (auto simp add: ToUpper_Ra_Gzrs)
qed

text \<open>
  C9. Every cost component that \<open>BuildResource\<close> returns for a supported configuration has
  the vendor azure and the region of the resource in its product filter, the purchase option
  Consumption and the start usage amount 0 in its price filter, the unit multiplier 1 and no
  monthly quantity.
\<close>

theorem C9_fixed_fields:
  "ToUpper uu (AccountReplicationType r)
      \<in> {''LRS'', ''ZRS'', ''GRS'', ''RA-GRS'', ''GZRS'', ''RA-GZRS''}
   \<Longrightarrow> \<exists>res. fst (BuildResource uu r) = Some res
        \<and> (\<forall>c \<in> set (CostComponents res).
             (\<exists>pf. ProductFilter c = Some pf
                \<and> VendorName pf = Some ''azure''
                \<and> ProductFilter.Region pf = Some (StorageQueue.Region r))
             \<and> (\<exists>prf. PriceFilter c = Some prf
                \<and> PurchaseOption prf = Some ''Consumption''
                \<and> StartUsageAmount prf = Some ''0'')
             \<and> UnitMultiplier c = NewFromInt 1
             \<and> decimalValue (UnitMultiplier c) = 1
             \<and> MonthlyQuantity c = None)"
proof -
  assume "ToUpper uu (AccountReplicationType r)
      \<in> {''LRS'', ''ZRS'', ''GRS'', ''RA-GRS'', ''GZRS'', ''RA-GZRS''}"
  then have "isReplicationTypeSupported uu r"
    by (simp only: supported_set)
  then show ?thesis
    by (simp add: BuildResource_components dataStorageCostComponent_def
        operationsCostComponents_def geoReplicationDataTransferCostComponents_def
        strPtr_def Let_def NewFromInt_def decimalValue_def)
qed

theorem C9_witness:
  "map_option
     (map (\<lambda>c. (map_option VendorName (ProductFilter c),
                 map_option ProductFilter.Region (ProductFilter c),
                 map_option PurchaseOption (PriceFilter c),
                 map_option StartUsageAmount (PriceFilter c),
                 decimalValue (UnitMultiplier c), MonthlyQuantity c)) \<circ> CostComponents)
     (fst (BuildResource id
       \<lparr>Address = ''q'', Region = ''westeurope'', AccountReplicationType = ''ra-grs''\<rparr>))
   = Some (replicate 4
       (Some (Some ''azure''), Some (Some ''westeurope''), Some (Some ''Consumption''),
        Some (Some ''0''), 1, None))"
proof -
  have four: "\<exists>c1 c2 c3 c4. map_option CostComponents (fst (BuildResource id
       \<lparr>Address = ''q'', Region = ''westeurope'', AccountReplicationType = ''ra-grs''\<rparr>))
     = Some [c1, c2, c3, c4]"
    by (simp add: BuildResource_components supported_set ToUpper_ra_grs
        operationsCostComponents_def geoReplicationDataTransferCostComponents_def contains_set)
  show ?thesis
    using C9_fixed_fields
      [of id "\<lparr>Address = ''q'', Region = ''westeurope'', AccountReplicationType = ''ra-grs''\<rparr>"]
      four
    by (auto simp add: ToUpper_ra_grs numeral_eq_Suc)
qed

section \<open>Facts about the version check and the loader\<close>

lemma checkVersion_0_1: "checkVersion ''0.1''"
  by code_simp

lemma checkVersion_v0_1: "checkVersion ''v0.1''"
  by code_simp

lemma checkVersion_0_2: "\<not> checkVersion ''0.2''"
  by code_simp

lemma checkVersion_0_0: "\<not> checkVersion ''0.0''"
  by code_simp

lemma checkVersion_empty: "\<not> checkVersion []"
  by code_simp

lemma checkVersion_0_1_0: "checkVersion ''0.1.0''"
  by code_simp

lemma checkVersion_v0_1_0: "checkVersion ''v0.1.0''"
  by code_simp

lemma Compare_v0_1_0: "Compare ''v0.1.0'' ''v0.1'' = 0"
  by code_simp

lemma parse_v0_1:
  "parse ''v0.1'' = Some \<lparr> major = ''0'', minor = ''1'', patch = ''0'', short = ''.0'',
     prerelease = [], build = [] \<rparr>"
  by code_simp

lemma compareInt_0: "compareInt x y = 0 \<longleftrightarrow> x = y"
  by (simp add: compareInt_def)

lemma comparePrerelease_release: "comparePrerelease x [] = 0 \<longleftrightarrow> x = []"
  by (simp add: comparePrerelease_def)

lemma Compare_v0_1:
  "Compare v ''v0.1'' = 0 \<longleftrightarrow>
   (\<exists>p. parse v = Some p \<and> major p = ''0'' \<and> minor p = ''1'' \<and> patch p = ''0''
        \<and> prerelease p = [])"
  by (cases "parse v")
    (simp_all add: Compare_def parse_v0_1 compareInt_0 comparePrerelease_release)

lemma checkVersion_Compare:
  "checkVersion v \<longleftrightarrow> Compare (if \<not> HasPrefix v ''v'' then ''v'' @ v else v) ''v0.1'' = 0"
  by (auto simp add: checkVersion_def minUsageFileVersion_def maxUsageFileVersion_def Let_def)

lemma parseYAML_cases:
  "parseYAML um nm y =
     (if snd (um y zeroUsageFile) \<noteq> None
      then (Map.empty, Wrap (snd (um y zeroUsageFile)) ''Error parsing usage YAML'')
      else if \<not> checkVersion (Version (fst (um y zeroUsageFile)))
      then (Map.empty, Some versionError)
      else (nm (ResourceUsage (fst (um y zeroUsageFile))), None))"
  by (simp add: parseYAML_def split_beta)

lemma Wrap_None: "Wrap err msg = None \<longleftrightarrow> err = None"
  by (simp add: Wrap_def split: option.splits)

lemma parseYAML_error_empty: "snd (parseYAML um nm y) \<noteq> None \<Longrightarrow> fst (parseYAML um nm y) = Map.empty"
  by (simp add: parseYAML_cases split: if_splits)

lemma LoadFromFile_cases:
  "LoadFromFile rf um nm p =
     (if p = [] then ((Map.empty, None), [])
      else if snd (rf p) \<noteq> None
      then ((Map.empty, Wrap (snd (rf p)) ''Error reading usage file''),
            [Logged (DebugLevel, ''Loading usage data from usage file''), ReadFile p])
      else if snd (parseYAML um nm (fst (rf p))) \<noteq> None
      then ((fst (parseYAML um nm (fst (rf p))),
             Wrap (snd (parseYAML um nm (fst (rf p)))) ''Error parsing usage file''),
            [Logged (DebugLevel, ''Loading usage data from usage file''), ReadFile p])
      else ((fst (parseYAML um nm (fst (rf p))), None),
            [Logged (DebugLevel, ''Loading usage data from usage file''), ReadFile p]))"
  by (simp add: LoadFromFile_def split_beta Let_def)

section \<open>Properties of the usage file loader\<close>

text \<open>
  C6. The version check accepts "0.1" and "v0.1" and rejects "0.2", "0.0" and the empty
  string. When the version of a parsed usage file is rejected, \<open>parseYAML\<close> returns the empty
  map and the version error, whose message gives 0.1 as the lower and as the upper bound of
  the supported range.
\<close>

theorem C6_version_check:
  "checkVersion ''0.1'' \<and> checkVersion ''v0.1''
   \<and> \<not> checkVersion ''0.2'' \<and> \<not> checkVersion ''0.0'' \<and> \<not> checkVersion []
   \<and> (um y zeroUsageFile = (uf, None) \<and> \<not> checkVersion (Version uf)
      \<longrightarrow> parseYAML um nm y = (Map.empty, Some versionError))
   \<and> (um y zeroUsageFile = (uf, None) \<and> Version uf \<in> {''0.2'', ''0.0'', []}
      \<longrightarrow> parseYAML um nm y = (Map.empty, Some versionError))
   \<and> (um y zeroUsageFile = (uf, None) \<and> Version uf \<in> {''0.1'', ''v0.1''}
      \<longrightarrow> parseYAML um nm y = (nm (ResourceUsage uf), None))
   \<and> Error versionError =
       ''Invalid usage file version. Supported versions are 0.1 ''
         @ [CHR 0xE2, CHR 0x89, CHR 0xA4] @ '' x '' @ [CHR 0xE2, CHR 0x89, CHR 0xA4] @ '' 0.1''"
  by (auto simp add: checkVersion_0_1 checkVersion_v0_1 checkVersion_0_2 checkVersion_0_0
      checkVersion_empty parseYAML_cases versionError_def minUsageFileVersion_def
      maxUsageFileVersion_def)

theorem C6_witness:
  "parseYAML (\<lambda>y z. (z\<lparr>Version := y\<rparr>, None)) (\<lambda>m. m) ''0.2''
     = (Map.empty :: string \<rightharpoonup> nat, Some versionError)
   \<and> parseYAML (\<lambda>y z. (z\<lparr>Version := y\<rparr>, None)) (\<lambda>m. m) ''v0.1''
     = (Map.empty :: string \<rightharpoonup> nat, None)"
  using C6_version_check [of "\<lambda>y z. (z\<lparr>Version := y\<rparr>, None)" "''0.2''"
      "zeroUsageFile\<lparr>Version := ''0.2''\<rparr>" "\<lambda>m. m :: string \<rightharpoonup> nat"]
    C6_version_check [of "\<lambda>y z. (z\<lparr>Version := y\<rparr>, None)" "''v0.1''"
      "zeroUsageFile\<lparr>Version := ''v0.1''\<rparr>" "\<lambda>m. m :: string \<rightharpoonup> nat"]
  by (simp add: zeroUsageFile_def)

text \<open>
  C7. Whenever \<open>LoadFromFile\<close> returns an error, the map it returns is empty. It returns an
  error when the file cannot be read, when the YAML cannot be parsed and when the version is
  out of range. When it returns no error, the map is the empty one of the empty path or the
  whole usage map of a file that was read, parsed and accepted.
\<close>

theorem C7_error_gives_empty_map:
  "(snd (fst (LoadFromFile rf um nm p)) \<noteq> None
      \<longrightarrow> fst (fst (LoadFromFile rf um nm p)) = Map.empty)
   \<and> (p \<noteq> [] \<and> snd (rf p) \<noteq> None
      \<longrightarrow> snd (fst (LoadFromFile rf um nm p)) \<noteq> None)
   \<and> (p \<noteq> [] \<and> snd (rf p) = None \<and> snd (um (fst (rf p)) zeroUsageFile) \<noteq> None
      \<longrightarrow> snd (fst (LoadFromFile rf um nm p)) \<noteq> None)
   \<and> (p \<noteq> [] \<and> snd (rf p) = None \<and> snd (um (fst (rf p)) zeroUsageFile) = None
        \<and> \<not> checkVersion (Version (fst (um (fst (rf p)) zeroUsageFile)))
      \<longrightarrow> snd (fst (LoadFromFile rf um nm p)) \<noteq> None)
   \<and> (snd (fst (LoadFromFile rf um nm p)) = None
      \<longrightarrow> (if p = [] then fst (fst (LoadFromFile rf um nm p)) = Map.empty
           else snd (rf p) = None \<and> snd (um (fst (rf p)) zeroUsageFile) = None
                \<and> checkVersion (Version (fst (um (fst (rf p)) zeroUsageFile)))
                \<and> fst (fst (LoadFromFile rf um nm p))
                    = nm (ResourceUsage (fst (um (fst (rf p)) zeroUsageFile)))))"
  by (auto simp add: LoadFromFile_cases parseYAML_cases Wrap_None)

theorem C7_witness:
  "fst (LoadFromFile (\<lambda>p. ([], Some (ErrorString ''no such file'')))
         (\<lambda>y z. (z, None)) (\<lambda>m. m :: string \<rightharpoonup> nat) ''usage.yml'')
     = (Map.empty, Some (WithMessage (ErrorString ''no such file'') ''Error reading usage file''))
   \<and> fst (fst (LoadFromFile (\<lambda>p. (''version: ['', None))
         (\<lambda>y z. (z\<lparr>ResourceUsage := [''q'' \<mapsto> 5]\<rparr>, Some (ErrorString ''yaml: line 1'')))
         (\<lambda>m. m :: string \<rightharpoonup> nat) ''usage.yml'')) = Map.empty
   \<and> snd (fst (LoadFromFile (\<lambda>p. (''version: ['', None))
         (\<lambda>y z. (z\<lparr>ResourceUsage := [''q'' \<mapsto> 5]\<rparr>, Some (ErrorString ''yaml: line 1'')))
         (\<lambda>m. m :: string \<rightharpoonup> nat) ''usage.yml'')) \<noteq> None
   \<and> fst (LoadFromFile (\<lambda>p. (''version: 0.2'', None))
         (\<lambda>y z. (z\<lparr>Version := ''0.2'', ResourceUsage := [''q'' \<mapsto> 5]\<rparr>, None))
         (\<lambda>m. m :: string \<rightharpoonup> nat) ''usage.yml'')
     = (Map.empty, Some (WithMessage versionError ''Error parsing usage file''))
   \<and> fst (LoadFromFile (\<lambda>p. (''version: 0.1'', None))
         (\<lambda>y z. (z\<lparr>Version := ''0.1'', ResourceUsage := [''q'' \<mapsto> 5]\<rparr>, None))
         (\<lambda>m. m :: string \<rightharpoonup> nat) ''usage.yml'')
     = ([''q'' \<mapsto> 5], None)"
proof (intro conjI)
  show "fst (LoadFromFile (\<lambda>p. ([], Some (ErrorString ''no such file'')))
         (\<lambda>y z. (z, None)) (\<lambda>m. m :: string \<rightharpoonup> nat) ''usage.yml'')
     = (Map.empty, Some (WithMessage (ErrorString ''no such file'') ''Error reading usage file''))"
    using C7_error_gives_empty_map [of "\<lambda>p. ([], Some (ErrorString ''no such file''))"
        "\<lambda>y z. (z, None)" "\<lambda>m. m :: string \<rightharpoonup> nat" "''usage.yml''"]
    by (simp add: LoadFromFile_cases Wrap_def)
  show "fst (fst (LoadFromFile (\<lambda>p. (''version: ['', None))
         (\<lambda>y z. (z\<lparr>ResourceUsage := [''q'' \<mapsto> 5]\<rparr>, Some (ErrorString ''yaml: line 1'')))
         (\<lambda>m. m :: string \<rightharpoonup> nat) ''usage.yml'')) = Map.empty"
    and "snd (fst (LoadFromFile (\<lambda>p. (''version: ['', None))
         (\<lambda>y z. (z\<lparr>ResourceUsage := [''q'' \<mapsto> 5]\<rparr>, Some (ErrorString ''yaml: line 1'')))
         (\<lambda>m. m :: string \<rightharpoonup> nat) ''usage.yml'')) \<noteq> None"
    using C7_error_gives_empty_map [of "\<lambda>p. (''version: ['', None)"
        "\<lambda>y z. (z\<lparr>ResourceUsage := [''q'' \<mapsto> 5]\<rparr>, Some (ErrorString ''yaml: line 1''))"
        "\<lambda>m. m :: string \<rightharpoonup> nat" "''usage.yml''"]
    by simp_all
  show "fst (LoadFromFile (\<lambda>p. (''version: 0.2'', None))
         (\<lambda>y z. (z\<lparr>Version := ''0.2'', ResourceUsage := [''q'' \<mapsto> 5]\<rparr>, None))
         (\<lambda>m. m :: string \<rightharpoonup> nat) ''usage.yml'')
     = (Map.empty, Some (WithMessage versionError ''Error parsing usage file''))"
    using C7_error_gives_empty_map [of "\<lambda>p. (''version: 0.2'', None)"
        "\<lambda>y z. (z\<lparr>Version := ''0.2'', ResourceUsage := [''q'' \<mapsto> 5]\<rparr>, None)"
        "\<lambda>m. m :: string \<rightharpoonup> nat" "''usage.yml''"]
    by (simp add: LoadFromFile_cases parseYAML_cases Wrap_def checkVersion_0_2)
  show "fst (LoadFromFile (\<lambda>p. (''version: 0.1'', None))
         (\<lambda>y z. (z\<lparr>Version := ''0.1'', ResourceUsage := [''q'' \<mapsto> 5]\<rparr>, None))
         (\<lambda>m. m :: string \<rightharpoonup> nat) ''usage.yml'')
     = ([''q'' \<mapsto> 5], None)"
    using C7_error_gives_empty_map [of "\<lambda>p. (''version: 0.1'', None)"
        "\<lambda>y z. (z\<lparr>Version := ''0.1'', ResourceUsage := [''q'' \<mapsto> 5]\<rparr>, None)"
        "\<lambda>m. m :: string \<rightharpoonup> nat" "''usage.yml''"]
    by (simp add: LoadFromFile_cases parseYAML_cases checkVersion_0_1)
qed

text \<open>
  C8. With the empty string as the path, \<open>LoadFromFile\<close> returns the empty map and no error,
  whatever the file system holds, and its trace is empty: no file is read.
\<close>

theorem C8_empty_path:
  "LoadFromFile rf um nm [] = ((Map.empty, None), [])"
  by (simp add: LoadFromFile_def)

text \<open>
  C10. The version check compares in semantic-version order after adding the prefix, not by
  string equality: every version that compares equal to v0.1 is accepted, and these are the
  versions that parse to major 0, minor 1, patch 0 without a prerelease. "0.1.0" and "v0.1.0"
  differ from "0.1" and "v0.1" as strings and are accepted.
\<close>

theorem C10_semver_order:
  "(Compare (if \<not> HasPrefix v ''v'' then ''v'' @ v else v) (''v'' @ minUsageFileVersion) = 0
      \<longrightarrow> checkVersion v)
   \<and> (checkVersion v \<longleftrightarrow>
        (\<exists>p. parse (if \<not> HasPrefix v ''v'' then ''v'' @ v else v) = Some p
           \<and> major p = ''0'' \<and> minor p = ''1'' \<and> patch p = ''0'' \<and> prerelease p = []))
   \<and> Compare ''v0.1.0'' (''v'' @ minUsageFileVersion) = 0
   \<and> ''0.1.0'' \<noteq> minUsageFileVersion \<and> ''v0.1.0'' \<noteq> ''v'' @ minUsageFileVersion
   \<and> checkVersion ''0.1.0'' \<and> checkVersion ''v0.1.0''"
proof (intro conjI)
  show "Compare (if \<not> HasPrefix v ''v'' then ''v'' @ v else v) (''v'' @ minUsageFileVersion) = 0
      \<longrightarrow> checkVersion v"
    by (simp add: checkVersion_Compare minUsageFileVersion_def)
  show "checkVersion v \<longleftrightarrow>
        (\<exists>p. parse (if \<not> HasPrefix v ''v'' then ''v'' @ v else v) = Some p
           \<and> major p = ''0'' \<and> minor p = ''1'' \<and> patch p = ''0'' \<and> prerelease p = [])"
    by (simp only: checkVersion_Compare Compare_v0_1)
  show "Compare ''v0.1.0'' (''v'' @ minUsageFileVersion) = 0"
    by (simp only: minUsageFileVersion_def append.simps Compare_v0_1_0)
  show "''0.1.0'' \<noteq> minUsageFileVersion"
    by (simp add: minUsageFileVersion_def)
  show "''v0.1.0'' \<noteq> ''v'' @ minUsageFileVersion"
    by (simp add: minUsageFileVersion_def)
  show "checkVersion ''0.1.0''"
    by (rule checkVersion_0_1_0)
  show "checkVersion ''v0.1.0''"
    by (rule checkVersion_v0_1_0)
qed

theorem C10_witness:
  "Compare ''v0.1.0'' ''v0.1'' = 0 \<and> checkVersion ''0.1.0''"
proof -
  have h: "Compare (if \<not> HasPrefix ''0.1.0'' ''v'' then ''v'' @ ''0.1.0'' else ''0.1.0'')
      (''v'' @ minUsageFileVersion) = 0"
    by (simp add: HasPrefix_def minUsageFileVersion_def Compare_v0_1_0)
  from conjunct1 [OF C10_semver_order [of "''0.1.0''"]] h have k: "checkVersion ''0.1.0''"
    by (rule mp)
  show ?thesis
    by (intro conjI) (rule Compare_v0_1_0, rule k)
qed

end
